theory Spec2Isabelle
  imports Complex_Main
begin

section \<open>Values read from a request\<close>

text \<open>
  The handlers of \<^verbatim>\<open>resources/recordResource.py\<close> read form fields with
  \<^verbatim>\<open>request.form.get(name)\<close> (a string, or None when the field is absent) and
  \<^verbatim>\<open>request.form.get(name, type=float)\<close> (a float, or None when the field is absent or
  does not parse). A Python float is a finite number, an infinity or NaN; only comparisons
  with constants and truthiness are applied to it, so the finite values are modelled as
  reals.
\<close>

datatype pyfloat = Finite real | PosInf | NegInf | NaN

text \<open>Truthiness of a float: only zero is falsy (NaN and the infinities are truthy).\<close>

fun float_truthy :: "pyfloat \<Rightarrow> bool" where
  "float_truthy (Finite x) = (x \<noteq> 0)"
| "float_truthy PosInf = True"
| "float_truthy NegInf = True"
| "float_truthy NaN = True"

text \<open>The chained comparison \<^verbatim>\<open>lo <= x <= hi\<close> with finite bounds.\<close>

fun in_range :: "real \<Rightarrow> pyfloat \<Rightarrow> real \<Rightarrow> bool" where
  "in_range lo (Finite x) hi = (lo \<le> x \<and> x \<le> hi)"
| "in_range lo PosInf hi = False"
| "in_range lo NegInf hi = False"
| "in_range lo NaN hi = False"

text \<open>Truthiness of an optional value: None is falsy, so is the empty string.\<close>

fun str_truthy :: "string option \<Rightarrow> bool" where
  "str_truthy None = False"
| "str_truthy (Some s) = (s \<noteq> [])"

fun opt_float_truthy :: "pyfloat option \<Rightarrow> bool" where
  "opt_float_truthy None = False"
| "opt_float_truthy (Some x) = float_truthy x"

subsection \<open>String methods\<close>

text \<open>
  \<^verbatim>\<open>str.lower\<close>, \<^verbatim>\<open>str.capitalize\<close> and \<^verbatim>\<open>str.strip\<close> on the letters A to Z and the
  whitespace characters below code point 256. The source compares lowered strings with
  ASCII literals only, and no character outside ASCII lowers to an ASCII character of
  those literals, so the comparison results are those of Python.
\<close>

definition upper_letters :: string where
  "upper_letters = ''ABCDEFGHIJKLMNOPQRSTUVWXYZ''"

definition lower_letters :: string where
  "lower_letters = ''abcdefghijklmnopqrstuvwxyz''"

definition lower_char :: "char \<Rightarrow> char" where
  "lower_char c = (case map_of (zip upper_letters lower_letters) c of Some d \<Rightarrow> d | None \<Rightarrow> c)"

definition upper_char :: "char \<Rightarrow> char" where
  "upper_char c = (case map_of (zip lower_letters upper_letters) c of Some d \<Rightarrow> d | None \<Rightarrow> c)"

definition lower :: "string \<Rightarrow> string" where
  "lower s = map lower_char s"

fun capitalize :: "string \<Rightarrow> string" where
  "capitalize [] = []"
| "capitalize (c # cs) = upper_char c # map lower_char cs"

definition whitespace :: "char list" where
  "whitespace = [CHR 0x20, CHR 0x09, CHR 0x0A, CHR 0x0B, CHR 0x0C, CHR 0x0D,
                 CHR 0x1C, CHR 0x1D, CHR 0x1E, CHR 0x1F, CHR 0x85, CHR 0xA0]"

definition strip :: "string \<Rightarrow> string" where
  "strip s = rev (dropWhile (\<lambda>c. c \<in> set whitespace) (rev (dropWhile (\<lambda>c. c \<in> set whitespace) s)))"

section \<open>Data model\<close>

text \<open>
  Modelled from the spec: the Record and User entities (\<^verbatim>\<open>models/recordModel.py\<close>,
  \<^verbatim>\<open>models/userModel.py\<close>) are not part of the source; their attributes are those the
  spec lists and the handlers read and write. Timestamps are instants, as integers.
\<close>

record Record =
  rec_id :: int
  rec_type :: string
  title :: string
  description :: string
  latitude :: "pyfloat option"
  longitude :: "pyfloat option"
  images :: "string list"
  status :: string
  user_id :: int
  created_at :: "int option"
  updated_at :: "int option"

record User =
  role :: string

text \<open>
  Modelled from the spec: the relational store (\<^verbatim>\<open>models/baseModel.py\<close>) holds the users,
  the committed record rows in the order \<^verbatim>\<open>Record.query.all()\<close> yields them, and the next
  id it will assign.
\<close>

record Store =
  users :: "int \<Rightarrow> User option"
  rows :: "Record list"
  next_id :: int

text \<open>
  An uploaded file part. A werkzeug FileStorage is truthy exactly when its filename is
  not empty.
\<close>

record File =
  filename :: string
  payload :: string

definition file_truthy :: "File \<Rightarrow> bool" where
  "file_truthy f = (filename f \<noteq> [])"

text \<open>
  What a handler reads of a request: the form fields, the file parts named
  \<^verbatim>\<open>images\<close> in submission order, and the query arguments \<^verbatim>\<open>page\<close> and
  \<^verbatim>\<open>per_page\<close> (None when absent or not an integer).
\<close>

record Request =
  form_type :: "string option"
  form_title :: "string option"
  form_description :: "string option"
  form_latitude :: "pyfloat option"
  form_longitude :: "pyfloat option"
  files :: "File list"
  arg_page :: "int option"
  arg_per_page :: "int option"

text \<open>
  The collaborators outside the handler: the media uploader, which returns the secure URL
  of a file or raises (\<open>Inl\<close> carries the exception text); whether the store's commit
  raises; and the clock, whose \<open>n\<close>-th reading during a request is \<open>clock env n\<close>.
\<close>

record Env =
  upload :: "File \<Rightarrow> string + string"
  commit_error :: "string option"
  clock :: "nat \<Rightarrow> int"

subsection \<open>Responses\<close>

text \<open>
  \<^verbatim>\<open>record.images or ''\<close>: an empty image list is sent as the empty string.
\<close>

datatype images_view = Urls "string list" | EmptyText

record RecordView =
  v_id :: int
  v_type :: string
  v_title :: string
  v_description :: string
  v_latitude :: "pyfloat option"
  v_longitude :: "pyfloat option"
  v_images :: images_view
  v_status :: string
  v_created_at :: "int option"
  v_updated_at :: "int option"
  v_user_id :: int

text \<open>
  The JSON bodies the handlers return. \<open>NoBody\<close> is a handler that ends without a return
  statement: it returns None, which the framework sends as \<^verbatim>\<open>null\<close> with status 200.
  A body returned without a status code is sent with status 200.
\<close>

datatype body =
    Message string
  | RecordBody RecordView
  | MessageRecord string RecordView
  | RecordList "RecordView list"
  | NoBody

type_synonym response = "body \<times> nat"

section \<open>The handlers\<close>

definition is_admin :: "Store \<Rightarrow> int \<Rightarrow> bool" where
  "is_admin db uid = (case users db uid of None \<Rightarrow> False | Some u \<Rightarrow> role u = ''admin'')"

definition query_get :: "Store \<Rightarrow> int \<Rightarrow> Record option" where
  "query_get db rid = find (\<lambda>r. rec_id r = rid) (rows db)"

definition format_record :: "Record \<Rightarrow> RecordView" where
  "format_record r =
     \<lparr> v_id = rec_id r, v_type = rec_type r, v_title = title r,
       v_description = description r, v_latitude = latitude r, v_longitude = longitude r,
       v_images = (if images r = [] then EmptyText else Urls (images r)),
       v_status = status r, v_created_at = created_at r, v_updated_at = updated_at r,
       v_user_id = user_id r \<rparr>"

definition locked_statuses :: "string list" where
  "locked_statuses = [''under investigation'', ''rejected'', ''resolved'']"

text \<open>
  The upload loop of \<^verbatim>\<open>post\<close> and \<^verbatim>\<open>put\<close>: falsy parts are skipped, every other
  part is uploaded and its URL appended; the first upload that raises ends the loop.
\<close>

fun upload_files :: "(File \<Rightarrow> string + string) \<Rightarrow> File list \<Rightarrow> string list \<Rightarrow> string + string list" where
  "upload_files up [] image_urls = Inr image_urls"
| "upload_files up (f # fs) image_urls =
     (if file_truthy f then
        (case up f of
           Inl e \<Rightarrow> Inl e
         | Inr url \<Rightarrow> upload_files up fs (image_urls @ [url]))
      else upload_files up fs image_urls)"

subsection \<open>GET\<close>

text \<open>The branch of \<^verbatim>\<open>get\<close> taken when \<^verbatim>\<open>record_id\<close> is truthy.\<close>

definition get_one :: "Store \<Rightarrow> int \<Rightarrow> int \<Rightarrow> response" where
  "get_one db caller record_id =
     (case query_get db record_id of
        None \<Rightarrow> (Message ''Record not found'', 404)
      | Some record \<Rightarrow>
          if user_id record \<noteq> caller \<and> \<not> is_admin db caller
          then (Message ''Unauthorized access'', 403)
          else (RecordBody (format_record record), 200))"

text \<open>
  The rest of \<^verbatim>\<open>get\<close>: \<^verbatim>\<open>page\<close> and \<^verbatim>\<open>per_page\<close> are read and not used. The
  return statement stands inside the \<^verbatim>\<open>else\<close> of \<^verbatim>\<open>if is_admin(user_id)\<close>, so the
  admin branch assigns \<^verbatim>\<open>records\<close> and the function ends without returning.
\<close>

definition get_all :: "Store \<Rightarrow> int \<Rightarrow> Request \<Rightarrow> response" where
  "get_all db caller req =
     (let page = (case arg_page req of None \<Rightarrow> 1 | Some p \<Rightarrow> p);
          per_page = min (case arg_per_page req of None \<Rightarrow> 10 | Some p \<Rightarrow> p) 100
      in if is_admin db caller then
           (let records = rows db in (NoBody, 200))
         else
           (let records = filter (\<lambda>r. user_id r = caller) (rows db)
            in (RecordList (map format_record records), 200)))"

text \<open>\<^verbatim>\<open>if record_id:\<close> is false for None and for 0.\<close>

definition get :: "Store \<Rightarrow> int \<Rightarrow> int option \<Rightarrow> Request \<Rightarrow> response" where
  "get db caller record_id req =
     (case record_id of
        None \<Rightarrow> get_all db caller req
      | Some rid \<Rightarrow> if rid \<noteq> 0 then get_one db caller rid else get_all db caller req)"

subsection \<open>POST\<close>

text \<open>
  A handler that changes the store returns the response and the committed store. A
  return before \<^verbatim>\<open>db.session.commit()\<close>, and \<^verbatim>\<open>db.session.rollback()\<close> in the
  exception handler, leave the committed store as it was.
\<close>

definition post :: "Env \<Rightarrow> Store \<Rightarrow> int \<Rightarrow> Request \<Rightarrow> response \<times> Store" where
  "post env db caller req =
     (let record_type = form_type req;
          title = strip (case form_title req of None \<Rightarrow> [] | Some t \<Rightarrow> t);
          description = strip (case form_description req of None \<Rightarrow> [] | Some d \<Rightarrow> d);
          latitude = form_latitude req;
          longitude = form_longitude req
      in case record_type of
           None \<Rightarrow> ((Message ''Type must be Red-Flag or Intervention'', 400), db)
         | Some ty \<Rightarrow>
      if ty \<notin> set [''Red-Flag'', ''Intervention''] then
        ((Message ''Type must be Red-Flag or Intervention'', 400), db)
      else if (case latitude of None \<Rightarrow> False | Some la \<Rightarrow> \<not> in_range (-90) la 90) then
        ((Message ''Invalid latitude'', 400), db)
      else if (case longitude of None \<Rightarrow> False | Some lo \<Rightarrow> \<not> in_range (-180) lo 180) then
        ((Message ''Invalid longitude'', 400), db)
      else
        (case upload_files (upload env) (files req) [] of
           Inl e \<Rightarrow> ((Message (''Error creating record: '' @ e), 500), db)
         | Inr image_urls \<Rightarrow>
             (let record = \<lparr> rec_id = next_id db, rec_type = ty, title = title,
                             description = description, latitude = latitude,
                             longitude = longitude, images = image_urls,
                             status = ''pending'', user_id = caller,
                             created_at = Some (clock env 0),
                             updated_at = Some (clock env 1) \<rparr>
              in case commit_error env of
                   Some e \<Rightarrow> ((Message (''Error creating record: '' @ e), 500), db)
                 | None \<Rightarrow>
                     ((MessageRecord ''Record created successfully'' (format_record record), 201),
                      db\<lparr>rows := rows db @ [record], next_id := next_id db + 1\<rparr>))))"

subsection \<open>PUT\<close>

text \<open>
  The statements of \<^verbatim>\<open>put\<close> after the type field has been applied to \<^verbatim>\<open>record\<close>:
  the all-fields check, the range checks, the assignments, the uploads and the commit.
  After the all-fields check none of the four values is None; the branches for None stand
  for the exception Python would raise there, which the handler turns into a 500.
\<close>

definition put_fields :: "Env \<Rightarrow> Store \<Rightarrow> Record \<Rightarrow> Request \<Rightarrow> response \<times> Store" where
  "put_fields env db record req =
     (let record_type = form_type req;
          title = form_title req;
          description = form_description req;
          latitude = form_latitude req;
          longitude = form_longitude req
      in if \<not> (str_truthy record_type \<and> str_truthy title \<and> str_truthy description \<and>
                opt_float_truthy latitude \<and> opt_float_truthy longitude) then
           ((Message ''All fields (type, title, description, latitude, longitude) are required'', 400), db)
         else
           (case latitude of
              None \<Rightarrow> ((Message ''Error updating record: TypeError'', 500), db)
            | Some la \<Rightarrow>
           if \<not> in_range (-90) la 90 then ((Message ''Invalid latitude'', 400), db)
           else
           (case longitude of
              None \<Rightarrow> ((Message ''Error updating record: TypeError'', 500), db)
            | Some lo \<Rightarrow>
           if \<not> in_range (-180) lo 180 then ((Message ''Invalid longitude'', 400), db)
           else
           (case title of
              None \<Rightarrow> ((Message ''Error updating record: AttributeError'', 500), db)
            | Some t \<Rightarrow>
           (case description of
              None \<Rightarrow> ((Message ''Error updating record: AttributeError'', 500), db)
            | Some d \<Rightarrow>
           (let record2 = record\<lparr>latitude := Some la, longitude := Some lo,
                                 title := strip t, description := strip d\<rparr>;
                uploaded_files = files req
            in case (if uploaded_files \<noteq> [] then
                       (case upload_files (upload env) uploaded_files [] of
                          Inl e \<Rightarrow> Inl e
                        | Inr image_urls \<Rightarrow> Inr (record2\<lparr>images := image_urls\<rparr>))
                     else Inr record2) of
                 Inl e \<Rightarrow> ((Message (''Error updating record: '' @ e), 500), db)
               | Inr record3 \<Rightarrow>
                   (let record4 = record3\<lparr>updated_at := Some (clock env 0)\<rparr>
                    in case commit_error env of
                         Some e \<Rightarrow> ((Message (''Error updating record: '' @ e), 500), db)
                       | None \<Rightarrow>
                           ((MessageRecord ''Record updated successfully'' (format_record record4), 200),
                            db\<lparr>rows := map (\<lambda>r. if rec_id r = rec_id record then record4 else r)
                                           (rows db)\<rparr>))))))))"

text \<open>The type field of \<^verbatim>\<open>put\<close>, applied when it is truthy.\<close>

definition put_type :: "Env \<Rightarrow> Store \<Rightarrow> Record \<Rightarrow> Request \<Rightarrow> response \<times> Store" where
  "put_type env db record req =
     (case form_type req of
        None \<Rightarrow> put_fields env db record req
      | Some record_type \<Rightarrow>
          if record_type \<noteq> [] then
            (if lower record_type \<notin> set [''red-flag'', ''intervention''] then
               ((Message ''Invalid record type'', 400), db)
             else
               put_fields env db
                 (record\<lparr>rec_type := (if lower record_type = ''intervention''
                                       then capitalize record_type else ''Red-Flag'')\<rparr>)
                 req)
          else put_fields env db record req)"

definition put :: "Env \<Rightarrow> Store \<Rightarrow> int \<Rightarrow> int \<Rightarrow> Request \<Rightarrow> response \<times> Store" where
  "put env db caller record_id req =
     (case query_get db record_id of
        None \<Rightarrow> ((Message ''Record not found'', 404), db)
      | Some record \<Rightarrow>
          if user_id record \<noteq> caller then
            ((Message ''Unauthorized to edit this record'', 403), db)
          else if status record \<in> set locked_statuses then
            ((Message ''Cannot edit record with current status'', 400), db)
          else put_type env db record req)"

subsection \<open>DELETE\<close>

definition delete :: "Env \<Rightarrow> Store \<Rightarrow> int \<Rightarrow> int \<Rightarrow> response \<times> Store" where
  "delete env db caller record_id =
     (case query_get db record_id of
        None \<Rightarrow> ((Message ''Record not found'', 404), db)
      | Some record \<Rightarrow>
          if user_id record \<noteq> caller then
            ((Message ''Unauthorized to delete this record'', 403), db)
          else if status record \<in> set locked_statuses then
            ((Message ''Cannot delete record with current status'', 400), db)
          else
            (case commit_error env of
               Some e \<Rightarrow> ((Message (''Error deleting record: '' @ e), 500), db)
             | None \<Rightarrow>
                 ((Message ''Record deleted successfully'', 200),
                  db\<lparr>rows := filter (\<lambda>r. rec_id r \<noteq> rec_id record) (rows db)\<rparr>)))"

section \<open>The invariant on record types\<close>

text \<open>
  The data model's invariant: the type of a record is Red-Flag or Intervention, for every
  row of the store.
\<close>

definition type_allowed :: "Record \<Rightarrow> bool" where
  "type_allowed r = (rec_type r = ''Red-Flag'' \<or> rec_type r = ''Intervention'')"

definition types_valid :: "Store \<Rightarrow> bool" where
  "types_valid db = list_all type_allowed (rows db)"

text \<open>
  The stored spelling that belongs to a submitted type: a type that is red-flag in lower
  case is stored as Red-Flag, one that is intervention in lower case as Intervention.
\<close>

definition normalised_from :: "string option \<Rightarrow> string \<Rightarrow> bool" where
  "normalised_from submitted stored =
     (case submitted of
        None \<Rightarrow> False
      | Some ty \<Rightarrow> (lower ty = ''red-flag'' \<and> stored = ''Red-Flag'')
                  \<or> (lower ty = ''intervention'' \<and> stored = ''Intervention''))"

section \<open>Example data\<close>

text \<open>
  A store with two users and an admin, a pending and a resolved record of user 1, an
  uploader that rejects a text file, and some requests. The theorems below are applied
  to them.
\<close>

definition ex_users :: "int \<Rightarrow> User option" where
  "ex_users = [1 \<mapsto> \<lparr>role = ''user''\<rparr>, 2 \<mapsto> \<lparr>role = ''admin''\<rparr>, 3 \<mapsto> \<lparr>role = ''user''\<rparr>]"

definition ex_pending :: Record where
  "ex_pending = \<lparr> rec_id = 1, rec_type = ''Red-Flag'', title = ''Bribe at gate'',
       description = ''Officer asked for cash'', latitude = Some (Finite (-1)),
       longitude = Some (Finite 36),
       images = [''https://media.example/a.jpg'', ''https://media.example/b.jpg''],
       status = ''pending'', user_id = 1, created_at = Some 1000, updated_at = Some 1000 \<rparr>"

definition ex_resolved :: Record where
  "ex_resolved = \<lparr> rec_id = 2, rec_type = ''Intervention'', title = ''Broken bridge'',
       description = ''Bridge needs repair'', latitude = Some (Finite 4),
       longitude = Some (Finite 35), images = [],
       status = ''resolved'', user_id = 1, created_at = Some 1100, updated_at = Some 1200 \<rparr>"

definition ex_db :: Store where
  "ex_db = \<lparr> users = ex_users, rows = [ex_pending, ex_resolved], next_id = 3 \<rparr>"

definition ex_env :: Env where
  "ex_env = \<lparr> upload = (\<lambda>f. if filename f = ''notes.txt'' then Inl ''Invalid image file''
                            else Inr (''https://media.example/'' @ filename f)),
              commit_error = None,
              clock = (\<lambda>n. 2000 + int n) \<rparr>"

definition ex_create :: Request where
  "ex_create = \<lparr> form_type = Some ''Red-Flag'', form_title = Some '' Pothole '',
       form_description = Some ''Main road'', form_latitude = Some (Finite (-1)),
       form_longitude = Some (Finite 36),
       files = [\<lparr>filename = ''c.jpg'', payload = ''jpeg''\<rparr>],
       arg_page = Some 2, arg_per_page = Some 1 \<rparr>"

definition ex_create_text_file :: Request where
  "ex_create_text_file = ex_create\<lparr>files := [\<lparr>filename = ''notes.txt'', payload = ''text''\<rparr>]\<rparr>"

definition ex_update :: Request where
  "ex_update = \<lparr> form_type = Some ''INTERVENTION'', form_title = Some ''Bribe at gate 2'',
       form_description = Some ''Still there'', form_latitude = Some (Finite 10),
       form_longitude = Some (Finite 20),
       files = [\<lparr>filename = ''c.jpg'', payload = ''jpeg''\<rparr>, \<lparr>filename = [], payload = []\<rparr>,
                \<lparr>filename = ''d.jpg'', payload = ''jpeg''\<rparr>],
       arg_page = None, arg_per_page = None \<rparr>"

definition ex_update_lat_100 :: Request where
  "ex_update_lat_100 = ex_update\<lparr>form_latitude := Some (Finite 100)\<rparr>"

definition ex_update_lat_0 :: Request where
  "ex_update_lat_0 = ex_update\<lparr>form_latitude := Some (Finite 0)\<rparr>"

definition ex_create_lat_100 :: Request where
  "ex_create_lat_100 = ex_create\<lparr>form_latitude := Some (Finite 100)\<rparr>"

definition ex_update_red_flag :: Request where
  "ex_update_red_flag = ex_update\<lparr>form_type := Some ''red-FLAG''\<rparr>"

definition ex_update_banana :: Request where
  "ex_update_banana = ex_update\<lparr>form_type := Some ''banana''\<rparr>"

section \<open>Facts about the store and the example data\<close>

lemma query_get_id: "query_get db rid = Some r \<Longrightarrow> rec_id r = rid"
  by (auto simp: query_get_def find_Some_iff)

lemma ex_get_pending: "query_get ex_db 1 = Some ex_pending"
  by (simp add: query_get_def ex_db_def ex_pending_def)

lemma ex_get_resolved: "query_get ex_db 2 = Some ex_resolved"
  by (simp add: query_get_def ex_db_def ex_pending_def ex_resolved_def)

lemma ex_admin: "is_admin ex_db 2"
  by (simp add: is_admin_def ex_db_def ex_users_def)


section \<open>Authorisation\<close>

text \<open>
  C2: a PUT or a DELETE on an existing record whose owner is not the caller returns 403
  and leaves the store as it was. The caller's role is not consulted: the statement holds
  for every caller, and the example applies it to an admin.
\<close>

theorem non_owner_forbidden:
  assumes "query_get db rid = Some r" and "user_id r \<noteq> caller"
  shows "put env db caller rid req = ((Message ''Unauthorized to edit this record'', 403), db)
       \<and> delete env db caller rid = ((Message ''Unauthorized to delete this record'', 403), db)"
  using assms by (simp add: put_def delete_def)

theorem non_owner_forbidden_witness:
  "(query_get ex_db 1 = Some ex_pending \<and> user_id ex_pending \<noteq> 2 \<and> is_admin ex_db 2)
   \<and> (put ex_env ex_db 2 1 ex_update = ((Message ''Unauthorized to edit this record'', 403), ex_db)
       \<and> delete ex_env ex_db 2 1 = ((Message ''Unauthorized to delete this record'', 403), ex_db))"
proof -
  have owner: "user_id ex_pending \<noteq> 2"
    by (simp add: ex_pending_def)
  note result = non_owner_forbidden [OF ex_get_pending owner, of ex_env ex_update]
  from ex_get_pending owner ex_admin
  have "query_get ex_db 1 = Some ex_pending \<and> user_id ex_pending \<noteq> 2 \<and> is_admin ex_db 2"
    by simp
  then show ?thesis
    using result by (rule conjI)
qed



section \<open>The status lock\<close>

text \<open>
  C4: for an existing record whose status is one of under investigation, rejected and
  resolved, a PUT or a DELETE by its owner returns 400, and the store is left as it was:
  the record is neither modified nor deleted.
\<close>

theorem locked_record_rejected:
  assumes "query_get db rid = Some r" and "user_id r = caller"
    and "status r \<in> {''under investigation'', ''rejected'', ''resolved''}"
  shows "put env db caller rid req = ((Message ''Cannot edit record with current status'', 400), db)
       \<and> delete env db caller rid = ((Message ''Cannot delete record with current status'', 400), db)"
  using assms by (auto simp: put_def delete_def locked_statuses_def)

theorem locked_record_rejected_witness:
  "(query_get ex_db 2 = Some ex_resolved \<and> user_id ex_resolved = 1
      \<and> status ex_resolved \<in> {''under investigation'', ''rejected'', ''resolved''})
   \<and> (put ex_env ex_db 1 2 ex_update = ((Message ''Cannot edit record with current status'', 400), ex_db)
      \<and> delete ex_env ex_db 1 2 = ((Message ''Cannot delete record with current status'', 400), ex_db))"
proof -
  have owner: "user_id ex_resolved = 1"
    by (simp add: ex_resolved_def)
  have locked: "status ex_resolved \<in> {''under investigation'', ''rejected'', ''resolved''}"
    by (simp add: ex_resolved_def)
  note result = locked_record_rejected [OF ex_get_resolved owner locked, of ex_env ex_update]
  from ex_get_resolved owner locked
  have "query_get ex_db 2 = Some ex_resolved \<and> user_id ex_resolved = 1
      \<and> status ex_resolved \<in> {''under investigation'', ''rejected'', ''resolved''}"
    by simp
  then show ?thesis
    using result by (rule conjI)
qed

section \<open>Create\<close>

lemma ex_create_uploads:
  "upload_files (upload ex_env) (files ex_create) [] = Inr [''https://media.example/c.jpg'']"
  by (simp add: ex_env_def ex_create_def file_truthy_def)

text \<open>
  C1, as the code has it: for a create request that passes validation (the type is
  Red-Flag or Intervention, a latitude and a longitude that are present are in range),
  the operation returns 201 and the record it returns and stores has status pending and
  the caller's id as user_id, provided no image upload and not the commit raises; when
  one of them raises, the operation returns 500 and the store is left as it was.
\<close>

theorem post_valid_create:
  assumes ty: "form_type req = Some ty" "ty = ''Red-Flag'' \<or> ty = ''Intervention''"
    and lat: "\<forall>la. form_latitude req = Some la \<longrightarrow> in_range (-90) la 90"
    and lon: "\<forall>lo. form_longitude req = Some lo \<longrightarrow> in_range (-180) lo 180"
  shows "(\<forall>urls. upload_files (upload env) (files req) [] = Inr urls \<and> commit_error env = None \<longrightarrow>
            (\<exists>r. post env db caller req =
                   ((MessageRecord ''Record created successfully'' (format_record r), 201),
                    db\<lparr>rows := rows db @ [r], next_id := next_id db + 1\<rparr>)
                 \<and> status r = ''pending'' \<and> user_id r = caller
                 \<and> v_status (format_record r) = ''pending'' \<and> v_user_id (format_record r) = caller))
       \<and> ((\<exists>e. upload_files (upload env) (files req) [] = Inl e) \<or> (\<exists>e. commit_error env = Some e) \<longrightarrow>
            snd (fst (post env db caller req)) = 500 \<and> snd (post env db caller req) = db)"
proof -
  define mk where "mk = (\<lambda>image_urls.
      \<lparr> rec_id = next_id db, rec_type = ty,
        title = strip (case form_title req of None \<Rightarrow> [] | Some t \<Rightarrow> t),
        description = strip (case form_description req of None \<Rightarrow> [] | Some d \<Rightarrow> d),
        latitude = form_latitude req, longitude = form_longitude req,
        images = image_urls, status = ''pending'', user_id = caller,
        created_at = Some (clock env 0), updated_at = Some (clock env 1) \<rparr>)"
  have la: "(case form_latitude req of None \<Rightarrow> False | Some la \<Rightarrow> \<not> in_range (-90) la 90) = False"
    using lat by (simp split: option.splits)
  have lo: "(case form_longitude req of None \<Rightarrow> False | Some lo \<Rightarrow> \<not> in_range (-180) lo 180) = False"
    using lon by (simp split: option.splits)
  have member: "ty \<in> set [''Red-Flag'', ''Intervention'']"
    using ty(2) by auto
  have step: "post env db caller req =
      (case upload_files (upload env) (files req) [] of
         Inl e \<Rightarrow> ((Message (''Error creating record: '' @ e), 500), db)
       | Inr image_urls \<Rightarrow>
           (case commit_error env of
              Some e \<Rightarrow> ((Message (''Error creating record: '' @ e), 500), db)
            | None \<Rightarrow>
                ((MessageRecord ''Record created successfully'' (format_record (mk image_urls)), 201),
                 db\<lparr>rows := rows db @ [mk image_urls], next_id := next_id db + 1\<rparr>)))"
    unfolding post_def Let_def mk_def
    by (simp only: ty(1) option.case member la lo not_True_eq_False not_not if_False if_True)
  have fields: "status (mk urls) = ''pending'' \<and> user_id (mk urls) = caller
      \<and> v_status (format_record (mk urls)) = ''pending''
      \<and> v_user_id (format_record (mk urls)) = caller" for urls
    by (simp add: mk_def format_record_def)
  have ok: "\<exists>r. post env db caller req =
                   ((MessageRecord ''Record created successfully'' (format_record r), 201),
                    db\<lparr>rows := rows db @ [r], next_id := next_id db + 1\<rparr>)
                 \<and> status r = ''pending'' \<and> user_id r = caller
                 \<and> v_status (format_record r) = ''pending'' \<and> v_user_id (format_record r) = caller"
    if "upload_files (upload env) (files req) [] = Inr urls" and "commit_error env = None" for urls
  proof (intro exI [of _ "mk urls"] conjI)
    show "post env db caller req =
        ((MessageRecord ''Record created successfully'' (format_record (mk urls)), 201),
         db\<lparr>rows := rows db @ [mk urls], next_id := next_id db + 1\<rparr>)"
      using that by (simp add: step)
  qed (simp_all add: fields)
  have failed: "snd (fst (post env db caller req)) = 500 \<and> snd (post env db caller req) = db"
    if "(\<exists>e. upload_files (upload env) (files req) [] = Inl e) \<or> (\<exists>e. commit_error env = Some e)"
    using that by (auto simp: step split: sum.splits)
  from ok failed show ?thesis
    by blast
qed

theorem post_valid_create_witness:
  "(form_type ex_create = Some ''Red-Flag''
    \<and> form_latitude ex_create = Some (Finite (-1)) \<and> in_range (-90) (Finite (-1)) 90
    \<and> form_longitude ex_create = Some (Finite 36) \<and> in_range (-180) (Finite 36) 180
    \<and> upload_files (upload ex_env) (files ex_create) [] = Inr [''https://media.example/c.jpg'']
    \<and> commit_error ex_env = None)
   \<and> (\<exists>r. post ex_env ex_db 3 ex_create =
             ((MessageRecord ''Record created successfully'' (format_record r), 201),
              ex_db\<lparr>rows := rows ex_db @ [r], next_id := next_id ex_db + 1\<rparr>)
           \<and> status r = ''pending'' \<and> user_id r = 3
           \<and> v_status (format_record r) = ''pending'' \<and> v_user_id (format_record r) = 3)"
proof -
  have ty: "form_type ex_create = Some ''Red-Flag''"
    by (simp add: ex_create_def)
  have allowed: "''Red-Flag'' = ''Red-Flag'' \<or> ''Red-Flag'' = ''Intervention''"
    by simp
  have lat: "form_latitude ex_create = Some (Finite (-1))"
    by (simp add: ex_create_def)
  have lat_ok: "in_range (-90) (Finite (-1)) 90"
    by simp
  have lon: "form_longitude ex_create = Some (Finite 36)"
    by (simp add: ex_create_def)
  have lon_ok: "in_range (-180) (Finite 36) 180"
    by simp
  have commits: "commit_error ex_env = None"
    by (simp add: ex_env_def)
  have lat_all: "\<forall>la. form_latitude ex_create = Some la \<longrightarrow> in_range (-90) la 90"
    using lat lat_ok by simp
  have lon_all: "\<forall>lo. form_longitude ex_create = Some lo \<longrightarrow> in_range (-180) lo 180"
    using lon lon_ok by simp
  from post_valid_create [OF ty allowed lat_all lon_all, of ex_env ex_db 3]
       ex_create_uploads commits
  have created: "\<exists>r. post ex_env ex_db 3 ex_create =
             ((MessageRecord ''Record created successfully'' (format_record r), 201),
              ex_db\<lparr>rows := rows ex_db @ [r], next_id := next_id ex_db + 1\<rparr>)
           \<and> status r = ''pending'' \<and> user_id r = 3
           \<and> v_status (format_record r) = ''pending'' \<and> v_user_id (format_record r) = 3"
    by blast
  show ?thesis
    using ty lat lat_ok lon lon_ok ex_create_uploads commits created by blast
qed

text \<open>
  C1 as stated, without the proviso, fails: the request below passes validation, the
  uploader raises on its file, and the operation returns 500.
\<close>

theorem post_upload_raises_counterexample:
  "form_type ex_create_text_file = Some ''Red-Flag''
   \<and> form_latitude ex_create_text_file = Some (Finite (-1)) \<and> in_range (-90) (Finite (-1)) 90
   \<and> form_longitude ex_create_text_file = Some (Finite 36) \<and> in_range (-180) (Finite 36) 180
   \<and> post ex_env ex_db 3 ex_create_text_file =
       ((Message ''Error creating record: Invalid image file'', 500), ex_db)"
  by (simp add: post_def ex_create_text_file_def ex_create_def ex_env_def file_truthy_def)

section \<open>Coordinates\<close>

lemma put_fields_out_of_range:
  assumes "(\<exists>la. form_latitude req = Some la \<and> \<not> in_range (-90) la 90)
         \<or> (\<exists>lo. form_longitude req = Some lo \<and> \<not> in_range (-180) lo 180)"
  shows "\<exists>m. put_fields env db record req = ((Message m, 400), db)"
proof (cases "str_truthy (form_type req) \<and> str_truthy (form_title req)
              \<and> str_truthy (form_description req)
              \<and> opt_float_truthy (form_latitude req) \<and> opt_float_truthy (form_longitude req)")
  case False
  then show ?thesis
    by (simp add: put_fields_def Let_def)
next
  case True
  then obtain la lo where la: "form_latitude req = Some la" and lo: "form_longitude req = Some lo"
    by (cases "form_latitude req"; cases "form_longitude req") auto
  show ?thesis
  proof (cases "in_range (-90) la 90")
    case False
    with True la show ?thesis
      by (simp add: put_fields_def Let_def)
  next
    case in_lat: True
    with assms la lo have "\<not> in_range (-180) lo 180"
      by auto
    with True la lo in_lat show ?thesis
      by (simp add: put_fields_def Let_def)
  qed
qed

lemma put_type_out_of_range:
  assumes "(\<exists>la. form_latitude req = Some la \<and> \<not> in_range (-90) la 90)
         \<or> (\<exists>lo. form_longitude req = Some lo \<and> \<not> in_range (-180) lo 180)"
  shows "\<exists>m. put_type env db record req = ((Message m, 400), db)"
  using put_fields_out_of_range [OF assms]
  by (simp add: put_type_def split: option.splits)

lemma post_out_of_range:
  assumes "(\<exists>la. form_latitude req = Some la \<and> \<not> in_range (-90) la 90)
         \<or> (\<exists>lo. form_longitude req = Some lo \<and> \<not> in_range (-180) lo 180)"
  shows "\<exists>m. post env db caller req = ((Message m, 400), db)"
proof (cases "form_type req")
  case None
  then show ?thesis
    by (simp add: post_def Let_def)
next
  case (Some ty)
  show ?thesis
  proof (cases "ty \<in> set [''Red-Flag'', ''Intervention'']")
    case False
    with Some show ?thesis
      by (simp add: post_def Let_def)
  next
    case True
    from assms show ?thesis
    proof
      assume "\<exists>la. form_latitude req = Some la \<and> \<not> in_range (-90) la 90"
      with Some True show ?thesis
        by (auto simp: post_def Let_def)
    next
      assume "\<exists>lo. form_longitude req = Some lo \<and> \<not> in_range (-180) lo 180"
      with Some True show ?thesis
        by (auto simp: post_def Let_def split: option.splits)
    qed
  qed
qed

lemma ex_lat_100: "form_latitude ex_update_lat_100 = Some (Finite 100) \<and> \<not> in_range (-90) (Finite 100) 90"
  by (simp add: ex_update_lat_100_def)

text \<open>
  C5, as the code has it: a create request that supplies a latitude outside [-90, 90] or a
  longitude outside [-180, 180] (NaN and the infinities included) returns 400; so does an
  update request on an existing record by its owner. An update of a record that does not
  exist returns 404, and an update by a caller who is not the owner returns 403, whatever
  the coordinates. In every case the store is left as it was: no record is created or
  modified.
\<close>

theorem out_of_range_rejected:
  assumes "(\<exists>la. form_latitude req = Some la \<and> \<not> in_range (-90) la 90)
         \<or> (\<exists>lo. form_longitude req = Some lo \<and> \<not> in_range (-180) lo 180)"
  shows "snd (fst (post env db caller req)) = 400 \<and> snd (post env db caller req) = db
       \<and> snd (put env db caller rid req) = db
       \<and> (\<forall>r. query_get db rid = Some r \<and> user_id r = caller \<longrightarrow>
             snd (fst (put env db caller rid req)) = 400)
       \<and> (query_get db rid = None \<longrightarrow>
             put env db caller rid req = ((Message ''Record not found'', 404), db))
       \<and> (\<forall>r. query_get db rid = Some r \<and> user_id r \<noteq> caller \<longrightarrow>
             put env db caller rid req =
               ((Message ''Unauthorized to edit this record'', 403), db))"
proof -
  from post_out_of_range [OF assms] obtain m where "post env db caller req = ((Message m, 400), db)"
    by blast
  then have create: "snd (fst (post env db caller req)) = 400 \<and> snd (post env db caller req) = db"
    by simp
  have inner: "snd (fst (put_type env db rc req)) = 400 \<and> snd (put_type env db rc req) = db"
    for rc
    using put_type_out_of_range [OF assms, of env db rc] by auto
  have store: "snd (put env db caller rid req) = db"
    by (simp add: put_def inner split: option.splits)
  have code: "snd (fst (put env db caller rid req)) = 400"
    if "query_get db rid = Some r" and "user_id r = caller" for r
    using that by (simp add: put_def inner)
  have missing: "put env db caller rid req = ((Message ''Record not found'', 404), db)"
    if "query_get db rid = None"
    using that by (simp add: put_def)
  have forbidden: "put env db caller rid req =
      ((Message ''Unauthorized to edit this record'', 403), db)"
    if "query_get db rid = Some r" and "user_id r \<noteq> caller" for r
    using that by (simp add: put_def)
  from create store code missing forbidden show ?thesis
    by blast
qed

theorem out_of_range_rejected_witness:
  "(form_type ex_create_lat_100 = Some ''Red-Flag''
      \<and> form_latitude ex_create_lat_100 = Some (Finite 100)
      \<and> form_latitude ex_update_lat_100 = Some (Finite 100)
      \<and> \<not> in_range (-90) (Finite 100) 90
      \<and> query_get ex_db 1 = Some ex_pending \<and> user_id ex_pending = 1
      \<and> user_id ex_pending \<noteq> 3 \<and> query_get ex_db 7 = None)
   \<and> (snd (fst (post ex_env ex_db 1 ex_create_lat_100)) = 400
      \<and> snd (post ex_env ex_db 1 ex_create_lat_100) = ex_db
      \<and> post ex_env ex_db 1 ex_create_lat_100 = ((Message ''Invalid latitude'', 400), ex_db))
   \<and> (snd (fst (put ex_env ex_db 1 1 ex_update_lat_100)) = 400
      \<and> snd (put ex_env ex_db 1 1 ex_update_lat_100) = ex_db
      \<and> put ex_env ex_db 1 1 ex_update_lat_100 = ((Message ''Invalid latitude'', 400), ex_db))
   \<and> (put ex_env ex_db 1 7 ex_update_lat_100 = ((Message ''Record not found'', 404), ex_db)
      \<and> put ex_env ex_db 3 1 ex_update_lat_100 =
          ((Message ''Unauthorized to edit this record'', 403), ex_db))"
proof -
  have ty: "form_type ex_create_lat_100 = Some ''Red-Flag''"
    by (simp add: ex_create_lat_100_def ex_create_def)
  have lat_create: "form_latitude ex_create_lat_100 = Some (Finite 100)"
    by (simp add: ex_create_lat_100_def)
  have outside: "\<not> in_range (-90) (Finite 100) 90"
    by simp
  have bad_create:
    "(\<exists>la. form_latitude ex_create_lat_100 = Some la \<and> \<not> in_range (-90) la 90)
     \<or> (\<exists>lo. form_longitude ex_create_lat_100 = Some lo \<and> \<not> in_range (-180) lo 180)"
    using lat_create outside by blast
  have bad_update:
    "(\<exists>la. form_latitude ex_update_lat_100 = Some la \<and> \<not> in_range (-90) la 90)
     \<or> (\<exists>lo. form_longitude ex_update_lat_100 = Some lo \<and> \<not> in_range (-180) lo 180)"
    using ex_lat_100 by blast
  have owner: "user_id ex_pending = 1"
    by (simp add: ex_pending_def)
  have other: "user_id ex_pending \<noteq> 3"
    by (simp add: ex_pending_def)
  have absent: "query_get ex_db 7 = None"
    by (simp add: query_get_def ex_db_def ex_pending_def ex_resolved_def)
  from out_of_range_rejected [OF bad_create, of ex_env ex_db 1 1]
  have create: "snd (fst (post ex_env ex_db 1 ex_create_lat_100)) = 400
      \<and> snd (post ex_env ex_db 1 ex_create_lat_100) = ex_db"
    by blast
  have create_message:
    "post ex_env ex_db 1 ex_create_lat_100 = ((Message ''Invalid latitude'', 400), ex_db)"
    by (simp add: post_def ex_create_lat_100_def ex_create_def)
  from out_of_range_rejected [OF bad_update, of ex_env ex_db 1 1] ex_get_pending owner
  have update: "snd (fst (put ex_env ex_db 1 1 ex_update_lat_100)) = 400
      \<and> snd (put ex_env ex_db 1 1 ex_update_lat_100) = ex_db"
    by blast
  have update_message:
    "put ex_env ex_db 1 1 ex_update_lat_100 = ((Message ''Invalid latitude'', 400), ex_db)"
    by (simp add: put_def put_type_def put_fields_def query_get_def ex_db_def ex_pending_def
        ex_update_lat_100_def ex_update_def locked_statuses_def lower_def lower_char_def
        upper_letters_def lower_letters_def Let_def)
  from out_of_range_rejected [OF bad_update, of ex_env ex_db 1 7] absent
  have missing: "put ex_env ex_db 1 7 ex_update_lat_100 = ((Message ''Record not found'', 404), ex_db)"
    by blast
  from out_of_range_rejected [OF bad_update, of ex_env ex_db 3 1] ex_get_pending other
  have forbidden: "put ex_env ex_db 3 1 ex_update_lat_100 =
      ((Message ''Unauthorized to edit this record'', 403), ex_db)"
    by blast
  from ty lat_create ex_lat_100 ex_get_pending owner other absent
  have given: "form_type ex_create_lat_100 = Some ''Red-Flag''
      \<and> form_latitude ex_create_lat_100 = Some (Finite 100)
      \<and> form_latitude ex_update_lat_100 = Some (Finite 100)
      \<and> \<not> in_range (-90) (Finite 100) 90
      \<and> query_get ex_db 1 = Some ex_pending \<and> user_id ex_pending = 1
      \<and> user_id ex_pending \<noteq> 3 \<and> query_get ex_db 7 = None"
    by blast
  from create create_message
  have created: "snd (fst (post ex_env ex_db 1 ex_create_lat_100)) = 400
      \<and> snd (post ex_env ex_db 1 ex_create_lat_100) = ex_db
      \<and> post ex_env ex_db 1 ex_create_lat_100 = ((Message ''Invalid latitude'', 400), ex_db)"
    by blast
  from update update_message
  have updated: "snd (fst (put ex_env ex_db 1 1 ex_update_lat_100)) = 400
      \<and> snd (put ex_env ex_db 1 1 ex_update_lat_100) = ex_db
      \<and> put ex_env ex_db 1 1 ex_update_lat_100 = ((Message ''Invalid latitude'', 400), ex_db)"
    by blast
  show ?thesis
    by (rule conjI [OF given conjI [OF created conjI [OF updated conjI [OF missing forbidden]]]])
qed

text \<open>
  C5 as stated, for every update request, fails: with a latitude of 100, an update of a
  record that does not exist returns 404, and an update by a caller who is not the owner
  returns 403. These checks come before the range checks.
\<close>

theorem put_out_of_range_counterexample:
  "form_latitude ex_update_lat_100 = Some (Finite 100) \<and> \<not> in_range (-90) (Finite 100) 90
   \<and> put ex_env ex_db 1 7 ex_update_lat_100 = ((Message ''Record not found'', 404), ex_db)
   \<and> put ex_env ex_db 3 1 ex_update_lat_100 = ((Message ''Unauthorized to edit this record'', 403), ex_db)"
  by (simp add: ex_update_lat_100_def put_def query_get_def ex_db_def ex_pending_def ex_resolved_def)

lemma put_fields_zero:
  assumes "form_latitude req = Some (Finite 0) \<or> form_longitude req = Some (Finite 0)"
  shows "put_fields env db record req =
     ((Message ''All fields (type, title, description, latitude, longitude) are required'', 400), db)"
proof -
  from assms have "\<not> (opt_float_truthy (form_latitude req) \<and> opt_float_truthy (form_longitude req))"
    by auto
  then show ?thesis
    by (auto simp: put_fields_def Let_def)
qed

text \<open>
  C10: an update by the owner of a record that is not locked, supplying a latitude of
  exactly 0.0 or a longitude of exactly 0.0, returns 400 and leaves the store as it was.
  With a type that is one of the two allowed (in any letter case) the message is that of
  the all-fields-required check, which reads 0.0 as a missing value, although 0.0 is
  within both valid ranges.
\<close>

theorem put_zero_coordinate_rejected:
  assumes "query_get db rid = Some r" and "user_id r = caller"
    and "status r \<notin> {''under investigation'', ''rejected'', ''resolved''}"
    and zero: "form_latitude req = Some (Finite 0) \<or> form_longitude req = Some (Finite 0)"
  shows "snd (fst (put env db caller rid req)) = 400 \<and> snd (put env db caller rid req) = db
       \<and> ((\<exists>ty. form_type req = Some ty \<and> lower ty \<in> set [''red-flag'', ''intervention'']) \<longrightarrow>
            put env db caller rid req =
              ((Message ''All fields (type, title, description, latitude, longitude) are required'', 400), db))
       \<and> in_range (-90) (Finite 0) 90 \<and> in_range (-180) (Finite 0) 180"
proof -
  have outer: "put env db caller rid req = put_type env db r req"
    using assms(1-3) by (simp add: put_def locked_statuses_def)
  have inner: "snd (fst (put_type env db r req)) = 400 \<and> snd (put_type env db r req) = db"
    by (simp add: put_type_def put_fields_zero [OF zero] split: option.splits)
  have msg: "put_type env db r req =
      ((Message ''All fields (type, title, description, latitude, longitude) are required'', 400), db)"
    if "form_type req = Some ty" and "lower ty \<in> set [''red-flag'', ''intervention'']" for ty
    using that by (simp add: put_type_def put_fields_zero [OF zero])
  from outer inner msg show ?thesis
    by auto
qed

theorem put_zero_coordinate_rejected_witness:
  "(query_get ex_db 1 = Some ex_pending \<and> user_id ex_pending = 1
      \<and> status ex_pending \<notin> {''under investigation'', ''rejected'', ''resolved''}
      \<and> form_latitude ex_update_lat_0 = Some (Finite 0)
      \<and> form_type ex_update_lat_0 = Some ''INTERVENTION''
      \<and> lower ''INTERVENTION'' \<in> set [''red-flag'', ''intervention''])
   \<and> (snd (fst (put ex_env ex_db 1 1 ex_update_lat_0)) = 400
      \<and> snd (put ex_env ex_db 1 1 ex_update_lat_0) = ex_db
      \<and> put ex_env ex_db 1 1 ex_update_lat_0 =
          ((Message ''All fields (type, title, description, latitude, longitude) are required'', 400), ex_db))"
proof -
  have owner: "user_id ex_pending = 1"
    by (simp add: ex_pending_def)
  have unlocked: "status ex_pending \<notin> {''under investigation'', ''rejected'', ''resolved''}"
    by (simp add: ex_pending_def)
  have lat: "form_latitude ex_update_lat_0 = Some (Finite 0)"
    by (simp add: ex_update_lat_0_def)
  have ty: "form_type ex_update_lat_0 = Some ''INTERVENTION''"
    by (simp add: ex_update_lat_0_def ex_update_def)
  have low: "lower ''INTERVENTION'' \<in> set [''red-flag'', ''intervention'']"
    by (simp add: lower_def lower_char_def upper_letters_def lower_letters_def)
  have zero: "form_latitude ex_update_lat_0 = Some (Finite 0) \<or> form_longitude ex_update_lat_0 = Some (Finite 0)"
    using lat by simp
  note result = put_zero_coordinate_rejected [OF ex_get_pending owner unlocked zero, of ex_env]
  from result ty low
  have "snd (fst (put ex_env ex_db 1 1 ex_update_lat_0)) = 400
      \<and> snd (put ex_env ex_db 1 1 ex_update_lat_0) = ex_db
      \<and> put ex_env ex_db 1 1 ex_update_lat_0 =
          ((Message ''All fields (type, title, description, latitude, longitude) are required'', 400), ex_db)"
    by blast
  with ex_get_pending owner unlocked lat ty low show ?thesis
    by blast
qed

section \<open>Update\<close>

text \<open>
  The upload loop returns the URLs of the truthy parts, in submission order, after the
  URLs it started with.
\<close>

lemma upload_files_urls:
  "upload_files up fs acc = Inr urls \<Longrightarrow>
     map Inr urls = map Inr acc @ map up (filter file_truthy fs)"
proof (induction fs arbitrary: acc)
  case Nil
  then show ?case by simp
next
  case (Cons f fs)
  show ?case
  proof (cases "file_truthy f")
    case False
    with Cons show ?thesis by simp
  next
    case True
    with Cons.prems obtain url where url: "up f = Inr url"
      and rest: "upload_files up fs (acc @ [url]) = Inr urls"
      by (auto split: sum.splits)
    from Cons.IH [OF rest] True url show ?thesis by simp
  qed
qed

text \<open>Replacing the row with a given id, and looking a row up afterwards.\<close>

lemma find_map_replace:
  "rec_id r' = rid \<Longrightarrow>
   find (\<lambda>r. rec_id r = k) (map (\<lambda>x. if rec_id x = rid then r' else x) xs) =
     (if k = rid then map_option (\<lambda>_. r') (find (\<lambda>r. rec_id r = rid) xs)
      else find (\<lambda>r. rec_id r = k) xs)"
  by (induction xs) auto

text \<open>The type that \<^verbatim>\<open>put\<close> stores is one of the two spellings.\<close>

lemma lower_char_i: "lower_char c = CHR ''i'' \<Longrightarrow> upper_char c = CHR ''I''"
  by (simp add: lower_char_def upper_char_def upper_letters_def lower_letters_def split: if_splits)

lemma capitalize_intervention:
  assumes "lower ty = ''intervention''"
  shows "capitalize ty = ''Intervention''"
proof (cases ty)
  case Nil
  with assms show ?thesis by (simp add: lower_def)
next
  case (Cons c cs)
  with assms have "lower_char c = CHR ''i''" and "map lower_char cs = ''ntervention''"
    by (simp_all add: lower_def)
  with Cons show ?thesis
    by (simp add: lower_char_i)
qed

lemma normalised_type:
  "lower ty \<in> set [''red-flag'', ''intervention''] \<Longrightarrow>
   (if lower ty = ''intervention'' then capitalize ty else ''Red-Flag'')
     \<in> {''Red-Flag'', ''Intervention''}"
  by (simp add: capitalize_intervention)

text \<open>
  The outcomes of \<^verbatim>\<open>put\<close>: either the status code is not 200 and the store is as it
  was, or the update succeeded and one row was replaced.
\<close>

lemma put_fields_cases:
  "(snd (fst (put_fields env db rc req)) \<noteq> 200 \<and> snd (put_fields env db rc req) = db)
   \<or> (\<exists>r'. put_fields env db rc req =
             ((MessageRecord ''Record updated successfully'' (format_record r'), 200),
              db\<lparr>rows := map (\<lambda>x. if rec_id x = rec_id rc then r' else x) (rows db)\<rparr>)
           \<and> rec_id r' = rec_id rc \<and> user_id r' = user_id rc \<and> status r' = status rc
           \<and> created_at r' = created_at rc \<and> rec_type r' = rec_type rc
           \<and> (if files req \<noteq> [] then upload_files (upload env) (files req) [] = Inr (images r')
               else images r' = images rc)
           \<and> str_truthy (form_type req))"
  by (auto simp: put_fields_def Let_def split: option.splits sum.splits)

lemma put_type_cases:
  "(snd (fst (put_type env db rc req)) \<noteq> 200 \<and> snd (put_type env db rc req) = db)
   \<or> (\<exists>r'. put_type env db rc req =
             ((MessageRecord ''Record updated successfully'' (format_record r'), 200),
              db\<lparr>rows := map (\<lambda>x. if rec_id x = rec_id rc then r' else x) (rows db)\<rparr>)
           \<and> rec_id r' = rec_id rc \<and> user_id r' = user_id rc \<and> status r' = status rc
           \<and> created_at r' = created_at rc \<and> type_allowed r'
           \<and> normalised_from (form_type req) (rec_type r')
           \<and> (if files req \<noteq> [] then upload_files (upload env) (files req) [] = Inr (images r')
               else images r' = images rc))"
proof (cases "str_truthy (form_type req)")
  case False
  then have "put_type env db rc req = put_fields env db rc req"
    by (cases "form_type req") (simp_all add: put_type_def)
  with False put_fields_cases [of env db rc req] show ?thesis
    by auto
next
  case True
  then obtain ty where ty: "form_type req = Some ty" "ty \<noteq> []"
    by (cases "form_type req") auto
  show ?thesis
  proof (cases "lower ty \<in> set [''red-flag'', ''intervention'']")
    case False
    with ty show ?thesis
      by (simp add: put_type_def)
  next
    case valid: True
    define n where "n = (if lower ty = ''intervention'' then capitalize ty else ''Red-Flag'')"
    have n: "n = ''Red-Flag'' \<or> n = ''Intervention''"
      using normalised_type [OF valid] by (simp add: n_def)
    have from_input: "normalised_from (form_type req) n"
      using ty(1) valid capitalize_intervention [of ty]
      by (auto simp: normalised_from_def n_def)
    have eq: "put_type env db rc req = put_fields env db (rc\<lparr>rec_type := n\<rparr>) req"
      using ty valid by (simp add: put_type_def n_def)
    from put_fields_cases [of env db "rc\<lparr>rec_type := n\<rparr>" req] n from_input show ?thesis
      unfolding eq type_allowed_def by auto
  qed
qed

lemma put_cases:
  "(snd (fst (put env db caller rid req)) \<noteq> 200 \<and> snd (put env db caller rid req) = db)
   \<or> (\<exists>r r'. query_get db rid = Some r
           \<and> put env db caller rid req =
             ((MessageRecord ''Record updated successfully'' (format_record r'), 200),
              db\<lparr>rows := map (\<lambda>x. if rec_id x = rid then r' else x) (rows db)\<rparr>)
           \<and> rec_id r' = rid \<and> user_id r' = user_id r \<and> status r' = status r
           \<and> created_at r' = created_at r \<and> type_allowed r'
           \<and> normalised_from (form_type req) (rec_type r')
           \<and> (if files req \<noteq> [] then upload_files (upload env) (files req) [] = Inr (images r')
               else images r' = images r))"
proof (cases "query_get db rid")
  case None
  then show ?thesis
    by (simp add: put_def)
next
  case (Some r)
  then have rid: "rec_id r = rid"
    by (auto simp: query_get_def find_Some_iff)
  show ?thesis
  proof (cases "user_id r \<noteq> caller \<or> status r \<in> set locked_statuses")
    case True
    with Some show ?thesis
      by (auto simp: put_def)
  next
    case False
    with Some have "put env db caller rid req = put_type env db r req"
      by (simp add: put_def)
    with put_type_cases [of env db r req] Some rid show ?thesis
      by auto
  qed
qed

lemma put_store_lookup:
  assumes "query_get db rid = Some r"
  shows "(snd (fst (put env db caller rid req)) \<noteq> 200 \<and> snd (put env db caller rid req) = db)
   \<or> (\<exists>r'. snd (fst (put env db caller rid req)) = 200
           \<and> fst (fst (put env db caller rid req)) =
                MessageRecord ''Record updated successfully'' (format_record r')
           \<and> query_get (snd (put env db caller rid req)) rid = Some r'
           \<and> (\<forall>k. k \<noteq> rid \<longrightarrow> query_get (snd (put env db caller rid req)) k = query_get db k)
           \<and> rec_id r' = rid \<and> user_id r' = user_id r \<and> status r' = status r
           \<and> created_at r' = created_at r \<and> type_allowed r'
           \<and> normalised_from (form_type req) (rec_type r')
           \<and> (if files req \<noteq> [] then upload_files (upload env) (files req) [] = Inr (images r')
               else images r' = images r))"
proof -
  from put_cases [of env db caller rid req] show ?thesis
  proof
    assume "snd (fst (put env db caller rid req)) \<noteq> 200 \<and> snd (put env db caller rid req) = db"
    then show ?thesis by simp
  next
    assume "\<exists>r r'. query_get db rid = Some r
           \<and> put env db caller rid req =
             ((MessageRecord ''Record updated successfully'' (format_record r'), 200),
              db\<lparr>rows := map (\<lambda>x. if rec_id x = rid then r' else x) (rows db)\<rparr>)
           \<and> rec_id r' = rid \<and> user_id r' = user_id r \<and> status r' = status r
           \<and> created_at r' = created_at r \<and> type_allowed r'
           \<and> normalised_from (form_type req) (rec_type r')
           \<and> (if files req \<noteq> [] then upload_files (upload env) (files req) [] = Inr (images r')
               else images r' = images r)"
    then obtain r0 r' where r0: "query_get db rid = Some r0"
      and eq: "put env db caller rid req =
             ((MessageRecord ''Record updated successfully'' (format_record r'), 200),
              db\<lparr>rows := map (\<lambda>x. if rec_id x = rid then r' else x) (rows db)\<rparr>)"
      and fields: "rec_id r' = rid" "user_id r' = user_id r0" "status r' = status r0"
           "created_at r' = created_at r0" "type_allowed r'"
           "normalised_from (form_type req) (rec_type r')"
           "if files req \<noteq> [] then upload_files (upload env) (files req) [] = Inr (images r')
               else images r' = images r0"
      by blast
    from r0 assms have same: "r0 = r" by simp
    have look: "query_get (snd (put env db caller rid req)) k =
        (if k = rid then Some r' else query_get db k)" for k
      using assms by (simp add: eq query_get_def find_map_replace [OF fields(1)])
    have "snd (fst (put env db caller rid req)) = 200
           \<and> fst (fst (put env db caller rid req)) =
                MessageRecord ''Record updated successfully'' (format_record r')
           \<and> query_get (snd (put env db caller rid req)) rid = Some r'
           \<and> (\<forall>k. k \<noteq> rid \<longrightarrow> query_get (snd (put env db caller rid req)) k = query_get db k)"
      by (simp add: look) (simp add: eq)
    with fields same show ?thesis
      by blast
  qed
qed

lemma ex_update_ok: "snd (fst (put ex_env ex_db 1 1 ex_update)) = 200"
  by (simp add: put_def put_type_def put_fields_def query_get_def ex_db_def ex_pending_def
      ex_env_def ex_update_def locked_statuses_def lower_def lower_char_def
      upper_letters_def lower_letters_def file_truthy_def Let_def)

lemma ex_update_uploads:
  "map (upload ex_env) (filter file_truthy (files ex_update)) =
     [Inr ''https://media.example/c.jpg'', Inr ''https://media.example/d.jpg'']"
  by (simp add: ex_env_def ex_update_def file_truthy_def)

text \<open>
  C7: after an update that submits at least one file part and succeeds (status 200), the
  images of the record are exactly the URLs the uploader returned for the uploaded parts
  (the parts with a filename; a part without one is skipped), in submission order. The
  previous image URLs play no part in the result. In the example the record had a.jpg and
  b.jpg and has c.jpg and d.jpg afterwards.
\<close>

theorem put_replaces_images:
  assumes "snd (fst (put env db caller rid req)) = 200" and "files req \<noteq> []"
  shows "\<exists>r'. query_get (snd (put env db caller rid req)) rid = Some r'
           \<and> fst (fst (put env db caller rid req)) =
                MessageRecord ''Record updated successfully'' (format_record r')
           \<and> map Inr (images r') = map (upload env) (filter file_truthy (files req))"
proof -
  from assms(1) obtain r where r: "query_get db rid = Some r"
    by (cases "query_get db rid") (simp_all add: put_def)
  from put_store_lookup [OF r, of env caller req] assms
  obtain r' where "query_get (snd (put env db caller rid req)) rid = Some r'"
    and "fst (fst (put env db caller rid req)) =
                MessageRecord ''Record updated successfully'' (format_record r')"
    and up: "upload_files (upload env) (files req) [] = Inr (images r')"
    by auto
  moreover from upload_files_urls [OF up]
  have "map Inr (images r') = map (upload env) (filter file_truthy (files req))"
    by simp
  ultimately show ?thesis
    by blast
qed

theorem put_replaces_images_witness:
  "(snd (fst (put ex_env ex_db 1 1 ex_update)) = 200 \<and> files ex_update \<noteq> []
      \<and> query_get ex_db 1 = Some ex_pending
      \<and> images ex_pending = [''https://media.example/a.jpg'', ''https://media.example/b.jpg''])
   \<and> (\<exists>r'. query_get (snd (put ex_env ex_db 1 1 ex_update)) 1 = Some r'
          \<and> images r' = [''https://media.example/c.jpg'', ''https://media.example/d.jpg''])"
proof -
  have some: "files ex_update \<noteq> []"
    by (simp add: ex_update_def)
  have old: "images ex_pending = [''https://media.example/a.jpg'', ''https://media.example/b.jpg'']"
    by (simp add: ex_pending_def)
  from put_replaces_images [OF ex_update_ok some]
  obtain r' where look: "query_get (snd (put ex_env ex_db 1 1 ex_update)) 1 = Some r'"
    and "map Inr (images r') = map (upload ex_env) (filter file_truthy (files ex_update))"
    by blast
  then have "map Inr (images r') =
      [Inr ''https://media.example/c.jpg'', Inr ''https://media.example/d.jpg'' :: string + string]"
    by (simp add: ex_update_uploads)
  then have "images r' = [''https://media.example/c.jpg'', ''https://media.example/d.jpg'']"
    by (auto simp: map_eq_Cons_conv)
  with look have "\<exists>r'. query_get (snd (put ex_env ex_db 1 1 ex_update)) 1 = Some r'
          \<and> images r' = [''https://media.example/c.jpg'', ''https://media.example/d.jpg'']"
    by blast
  with ex_update_ok some ex_get_pending old show ?thesis
    by blast
qed

text \<open>
  C9: an update of an existing record, whatever its outcome, leaves a record under the
  same id whose id, user_id, status and created_at are those it had. The other fields of
  a record are type, title, description, latitude, longitude, images and updated_at.
\<close>

theorem put_frame:
  assumes "query_get db rid = Some r"
  shows "\<exists>r'. query_get (snd (put env db caller rid req)) rid = Some r'
           \<and> rec_id r' = rec_id r \<and> user_id r' = user_id r
           \<and> status r' = status r \<and> created_at r' = created_at r"
proof -
  have rid: "rec_id r = rid"
    using assms by (rule query_get_id)
  from put_store_lookup [OF assms, of env caller req] show ?thesis
  proof
    assume "snd (fst (put env db caller rid req)) \<noteq> 200 \<and> snd (put env db caller rid req) = db"
    with assms show ?thesis by simp
  next
    assume "\<exists>r'. snd (fst (put env db caller rid req)) = 200
           \<and> fst (fst (put env db caller rid req)) =
                MessageRecord ''Record updated successfully'' (format_record r')
           \<and> query_get (snd (put env db caller rid req)) rid = Some r'
           \<and> (\<forall>k. k \<noteq> rid \<longrightarrow> query_get (snd (put env db caller rid req)) k = query_get db k)
           \<and> rec_id r' = rid \<and> user_id r' = user_id r \<and> status r' = status r
           \<and> created_at r' = created_at r \<and> type_allowed r'
           \<and> normalised_from (form_type req) (rec_type r')
           \<and> (if files req \<noteq> [] then upload_files (upload env) (files req) [] = Inr (images r')
               else images r' = images r)"
    with rid show ?thesis by auto
  qed
qed

theorem put_frame_witness:
  "(query_get ex_db 1 = Some ex_pending \<and> snd (fst (put ex_env ex_db 1 1 ex_update)) = 200)
   \<and> (\<exists>r'. query_get (snd (put ex_env ex_db 1 1 ex_update)) 1 = Some r'
           \<and> rec_id r' = rec_id ex_pending \<and> user_id r' = user_id ex_pending
           \<and> status r' = status ex_pending \<and> created_at r' = created_at ex_pending)"
proof -
  note kept = put_frame [OF ex_get_pending, of ex_env 1 ex_update]
  from ex_get_pending ex_update_ok
  have "query_get ex_db 1 = Some ex_pending \<and> snd (fst (put ex_env ex_db 1 1 ex_update)) = 200"
    by simp
  then show ?thesis
    using kept by (rule conjI)
qed

section \<open>Record types\<close>

lemma delete_rows_subset:
  "set (rows (snd (delete env db caller rid))) \<subseteq> set (rows db)"
  by (auto simp: delete_def split: option.splits)

lemma types_valid_post:
  assumes "types_valid db"
  shows "types_valid (snd (post env db caller req))"
proof (cases "form_type req")
  case None
  with assms show ?thesis
    by (simp add: post_def Let_def)
next
  case (Some ty)
  show ?thesis
  proof (cases "ty \<in> set [''Red-Flag'', ''Intervention'']")
    case False
    with Some assms show ?thesis
      by (simp add: post_def Let_def)
  next
    case True
    then have "ty = ''Red-Flag'' \<or> ty = ''Intervention''"
      by simp
    with Some True assms show ?thesis
      by (simp add: post_def Let_def types_valid_def type_allowed_def
          split: option.splits sum.splits)
  qed
qed

lemma types_valid_put: "types_valid db \<Longrightarrow> types_valid (snd (put env db caller rid req))"
  using put_cases [of env db caller rid req]
  by (auto simp: types_valid_def list_all_iff)

lemma types_valid_delete: "types_valid db \<Longrightarrow> types_valid (snd (delete env db caller rid))"
  using delete_rows_subset [of env db caller rid]
  by (auto simp: types_valid_def list_all_iff)

lemma post_bad_type:
  assumes "form_type req \<notin> {Some ''Red-Flag'', Some ''Intervention''}"
  shows "post env db caller req = ((Message ''Type must be Red-Flag or Intervention'', 400), db)"
proof (cases "form_type req")
  case None
  then show ?thesis
    by (simp add: post_def Let_def)
next
  case (Some ty)
  with assms have "ty \<notin> set [''Red-Flag'', ''Intervention'']"
    by simp
  with Some show ?thesis
    by (simp add: post_def Let_def)
qed

lemma put_success_type:
  assumes "snd (fst (put env db caller rid req)) = 200"
    and "query_get (snd (put env db caller rid req)) rid = Some r'"
  shows "\<exists>ty. form_type req = Some ty
           \<and> ((lower ty = ''red-flag'' \<and> rec_type r' = ''Red-Flag'')
              \<or> (lower ty = ''intervention'' \<and> rec_type r' = ''Intervention''))"
proof -
  from assms(1) obtain r where r: "query_get db rid = Some r"
    by (cases "query_get db rid") (simp_all add: put_def)
  from put_store_lookup [OF r, of env caller req] assms
  have "normalised_from (form_type req) (rec_type r')"
    by auto
  then show ?thesis
    by (cases "form_type req") (simp_all add: normalised_from_def)
qed

lemma put_bad_type:
  assumes "query_get db rid = Some r" and "user_id r = caller"
    and "status r \<notin> {''under investigation'', ''rejected'', ''resolved''}"
    and "form_type req = Some ty" and "ty \<noteq> []"
    and "lower ty \<notin> {''red-flag'', ''intervention''}"
  shows "put env db caller rid req = ((Message ''Invalid record type'', 400), db)"
  using assms by (simp add: put_def put_type_def locked_statuses_def)

lemma ex_types_valid: "types_valid ex_db"
  by (simp add: types_valid_def type_allowed_def ex_db_def ex_pending_def ex_resolved_def)

lemma ex_update_red_flag_ok: "snd (fst (put ex_env ex_db 1 1 ex_update_red_flag)) = 200"
  by (simp add: put_def put_type_def put_fields_def query_get_def ex_db_def ex_pending_def
      ex_env_def ex_update_red_flag_def ex_update_def locked_statuses_def lower_def
      lower_char_def upper_letters_def lower_letters_def file_truthy_def Let_def)

lemma ex_lower_intervention: "lower ''INTERVENTION'' = ''intervention''"
  by (simp add: lower_def lower_char_def upper_letters_def lower_letters_def)

lemma ex_lower_red_flag: "lower ''red-FLAG'' = ''red-flag''"
  by (simp add: lower_def lower_char_def upper_letters_def lower_letters_def)

lemma ex_lower_banana: "lower ''banana'' = ''banana''"
  by (simp add: lower_def lower_char_def upper_letters_def lower_letters_def)

text \<open>
  C8: create rejects with 400 every type other than Red-Flag and Intervention (the
  comparison is exact, and a missing type is rejected too). A successful update was given
  a type that, in lower case, is red-flag or intervention, and leaves the record with the
  matching spelling: Red-Flag for the first, Intervention for the second, whatever the
  letter case of the input. An update by the owner of an unlocked record with any other
  non-empty type returns 400 and changes nothing. So, when every record of the store has
  one of the two types, the same holds after a create, an update or a delete.
\<close>

theorem record_type_allowed:
  "(form_type req \<notin> {Some ''Red-Flag'', Some ''Intervention''} \<longrightarrow>
      post env db caller req = ((Message ''Type must be Red-Flag or Intervention'', 400), db))
   \<and> (\<forall>r'. snd (fst (put env db caller rid req)) = 200
           \<and> query_get (snd (put env db caller rid req)) rid = Some r' \<longrightarrow>
         (\<exists>ty. form_type req = Some ty
            \<and> ((lower ty = ''red-flag'' \<and> rec_type r' = ''Red-Flag'')
               \<or> (lower ty = ''intervention'' \<and> rec_type r' = ''Intervention''))))
   \<and> (\<forall>r ty. query_get db rid = Some r \<and> user_id r = caller
           \<and> status r \<notin> {''under investigation'', ''rejected'', ''resolved''}
           \<and> form_type req = Some ty \<and> ty \<noteq> []
           \<and> lower ty \<notin> {''red-flag'', ''intervention''} \<longrightarrow>
         put env db caller rid req = ((Message ''Invalid record type'', 400), db))
   \<and> (types_valid db \<longrightarrow>
         types_valid (snd (post env db caller req))
         \<and> types_valid (snd (put env db caller rid req))
         \<and> types_valid (snd (delete env db caller rid)))"
proof -
  have create: "form_type req \<notin> {Some ''Red-Flag'', Some ''Intervention''} \<longrightarrow>
      post env db caller req = ((Message ''Type must be Red-Flag or Intervention'', 400), db)"
    using post_bad_type [of req env db caller] by blast
  have update: "\<forall>r'. snd (fst (put env db caller rid req)) = 200
           \<and> query_get (snd (put env db caller rid req)) rid = Some r' \<longrightarrow>
         (\<exists>ty. form_type req = Some ty
            \<and> ((lower ty = ''red-flag'' \<and> rec_type r' = ''Red-Flag'')
               \<or> (lower ty = ''intervention'' \<and> rec_type r' = ''Intervention'')))"
    using put_success_type [of env db caller rid req] by blast
  have refused: "\<forall>r ty. query_get db rid = Some r \<and> user_id r = caller
           \<and> status r \<notin> {''under investigation'', ''rejected'', ''resolved''}
           \<and> form_type req = Some ty \<and> ty \<noteq> []
           \<and> lower ty \<notin> {''red-flag'', ''intervention''} \<longrightarrow>
         put env db caller rid req = ((Message ''Invalid record type'', 400), db)"
    using put_bad_type [of db rid _ caller req] by blast
  have kept: "types_valid db \<longrightarrow>
         types_valid (snd (post env db caller req))
         \<and> types_valid (snd (put env db caller rid req))
         \<and> types_valid (snd (delete env db caller rid))"
    using types_valid_post [of db env caller req] types_valid_put [of db env caller rid req]
      types_valid_delete [of db env caller rid]
    by blast
  show ?thesis
    by (rule conjI [OF create conjI [OF update conjI [OF refused kept]]])
qed

theorem record_type_allowed_witness:
  "(form_type ex_update = Some ''INTERVENTION''
      \<and> post ex_env ex_db 1 ex_update = ((Message ''Type must be Red-Flag or Intervention'', 400), ex_db))
   \<and> (snd (fst (put ex_env ex_db 1 1 ex_update)) = 200
      \<and> (\<exists>r'. query_get (snd (put ex_env ex_db 1 1 ex_update)) 1 = Some r'
             \<and> rec_type r' = ''Intervention''))
   \<and> (form_type ex_update_red_flag = Some ''red-FLAG''
      \<and> snd (fst (put ex_env ex_db 1 1 ex_update_red_flag)) = 200
      \<and> (\<exists>r'. query_get (snd (put ex_env ex_db 1 1 ex_update_red_flag)) 1 = Some r'
             \<and> rec_type r' = ''Red-Flag''))
   \<and> (form_type ex_update_banana = Some ''banana''
      \<and> put ex_env ex_db 1 1 ex_update_banana = ((Message ''Invalid record type'', 400), ex_db))
   \<and> (types_valid ex_db
      \<and> types_valid (snd (post ex_env ex_db 1 ex_update))
      \<and> types_valid (snd (put ex_env ex_db 1 1 ex_update))
      \<and> types_valid (snd (delete ex_env ex_db 1 1)))"
proof -
  note result = record_type_allowed [of ex_update ex_env ex_db 1 1]
  note result_red = record_type_allowed [of ex_update_red_flag ex_env ex_db 1 1]
  note result_banana = record_type_allowed [of ex_update_banana ex_env ex_db 1 1]
  have ty: "form_type ex_update = Some ''INTERVENTION''"
    by (simp add: ex_update_def)
  have ty_red: "form_type ex_update_red_flag = Some ''red-FLAG''"
    by (simp add: ex_update_red_flag_def)
  have ty_banana: "form_type ex_update_banana = Some ''banana''"
    by (simp add: ex_update_banana_def)
  from ty have bad: "form_type ex_update \<notin> {Some ''Red-Flag'', Some ''Intervention''}"
    by simp
  from result bad
  have rejected: "post ex_env ex_db 1 ex_update = ((Message ''Type must be Red-Flag or Intervention'', 400), ex_db)"
    by blast
  from put_store_lookup [OF ex_get_pending, of ex_env 1 ex_update] ex_update_ok
  obtain r' where look: "query_get (snd (put ex_env ex_db 1 1 ex_update)) 1 = Some r'"
    by auto
  with result ex_update_ok
  have "\<exists>t. form_type ex_update = Some t
          \<and> ((lower t = ''red-flag'' \<and> rec_type r' = ''Red-Flag'')
             \<or> (lower t = ''intervention'' \<and> rec_type r' = ''Intervention''))"
    by blast
  with ty ex_lower_intervention have "rec_type r' = ''Intervention''"
    by auto
  with look
  have updated: "\<exists>r'. query_get (snd (put ex_env ex_db 1 1 ex_update)) 1 = Some r'
             \<and> rec_type r' = ''Intervention''"
    by blast
  from put_store_lookup [OF ex_get_pending, of ex_env 1 ex_update_red_flag] ex_update_red_flag_ok
  obtain r2 where look2: "query_get (snd (put ex_env ex_db 1 1 ex_update_red_flag)) 1 = Some r2"
    by auto
  with result_red ex_update_red_flag_ok
  have "\<exists>t. form_type ex_update_red_flag = Some t
          \<and> ((lower t = ''red-flag'' \<and> rec_type r2 = ''Red-Flag'')
             \<or> (lower t = ''intervention'' \<and> rec_type r2 = ''Intervention''))"
    by blast
  with ty_red ex_lower_red_flag have "rec_type r2 = ''Red-Flag''"
    by auto
  with look2
  have updated_red: "\<exists>r'. query_get (snd (put ex_env ex_db 1 1 ex_update_red_flag)) 1 = Some r'
             \<and> rec_type r' = ''Red-Flag''"
    by blast
  have owner: "user_id ex_pending = 1"
    by (simp add: ex_pending_def)
  have unlocked: "status ex_pending \<notin> {''under investigation'', ''rejected'', ''resolved''}"
    by (simp add: ex_pending_def)
  have other_type: "''banana'' \<noteq> [] \<and> lower ''banana'' \<notin> {''red-flag'', ''intervention''}"
    by (simp add: ex_lower_banana)
  from result_banana ex_get_pending owner unlocked ty_banana other_type
  have refused: "put ex_env ex_db 1 1 ex_update_banana = ((Message ''Invalid record type'', 400), ex_db)"
    by blast
  from result ex_types_valid
  have kept: "types_valid (snd (post ex_env ex_db 1 ex_update))
      \<and> types_valid (snd (put ex_env ex_db 1 1 ex_update))
      \<and> types_valid (snd (delete ex_env ex_db 1 1))"
    by blast
  from ty rejected ex_update_ok updated ty_red ex_update_red_flag_ok updated_red
    ty_banana refused ex_types_valid kept
  show ?thesis
    by blast
qed

section \<open>Listing\<close>

text \<open>
  A GET without a record id ignores \<^verbatim>\<open>page\<close> and \<^verbatim>\<open>per_page\<close>. For a caller who
  is not an admin it returns all the caller's records; for an admin it returns no body.
\<close>

lemma get_list_admin:
  "is_admin db caller \<Longrightarrow> get db caller None req = (NoBody, 200)"
  by (simp add: get_def get_all_def)

lemma get_list_not_admin:
  "\<not> is_admin db caller \<Longrightarrow>
   get db caller None req =
     (RecordList (map format_record (filter (\<lambda>r. user_id r = caller) (rows db))), 200)"
  by (simp add: get_def get_all_def)

text \<open>
  C6 says that an admin receives all records of the store. The code does not do that:
  the return statement of the list branch is indented under the \<^verbatim>\<open>else\<close> of the admin
  test, so for an admin the records are fetched and the handler ends without returning
  them. With two records in the store, the admin (user 2) receives an empty body.
\<close>

theorem get_list_admin_no_records:
  "is_admin ex_db 2 \<and> rows ex_db = [ex_pending, ex_resolved]
   \<and> get ex_db 2 None ex_create = (NoBody, 200)"
  by (simp add: ex_admin get_list_admin) (simp add: ex_db_def)

end
